theory Spec2Isabelle
  imports Main
begin

section \<open>Python values\<close>

text \<open>
  A Python \<open>str\<close> is a sequence of Unicode code points, so it is modelled as a list of
  natural numbers: \<open>len\<close> is \<open>length\<close>, the slice \<open>s[:n]\<close> is \<open>take n s\<close> and \<open>+\<close> is
  \<open>@\<close>. ASCII literals of the source are written through \<open>ascii\<close>; the Chinese
  literals are given by their code points. Uploaded files and response bodies are byte
  strings (\<open>string\<close>).
\<close>

type_synonym pystr = "nat list"
type_synonym bytes = string

definition ascii :: "string \<Rightarrow> pystr" where
  "ascii s = map of_char s"

text \<open>
  An exception object: its class name and the text \<open>str(e)\<close> gives. Every exception of
  the model is an instance of \<open>Exception\<close>, which is what the two handlers of the
  source catch.
\<close>

datatype exn = Exception string pystr

fun exn_str :: "exn \<Rightarrow> pystr" where
  "exn_str (Exception cls msg) = msg"

datatype cell = CInt int | CStr pystr | CNone

text \<open>A pandas DataFrame as data: the column names and the rows.\<close>

record frame =
  fcols :: "pystr list"
  frows :: "cell list list"

definition head :: "nat \<Rightarrow> frame \<Rightarrow> frame" where
  "head n f = f\<lparr>frows := take n (frows f)\<rparr>"

type_synonym records = "(pystr \<times> cell) list list"

section \<open>Analysis results\<close>

text \<open>
  The dict a chart is drawn from: \<open>input_data["columns"]\<close>, \<open>input_data["data"]\<close> and
  the optional keys read with \<open>input_data.get\<close>.
\<close>

record chart_spec =
  columns :: "pystr list"
  data :: "int list"
  title :: "pystr option"
  x_label :: "pystr option"
  y_label :: "pystr option"

record table_spec =
  tdata :: "cell list list"
  tcolumns :: "pystr list"

text \<open>The dict \<open>display_result\<close> receives: each of the four keys may be absent.\<close>

record analysis_result =
  answer :: "pystr option"
  table :: "table_spec option"
  bar :: "chart_spec option"
  line :: "chart_spec option"

section \<open>Fetched responses and parsed markup\<close>

record response =
  status_code :: nat
  content_type :: "pystr option"
  resp_text :: pystr
  content :: bytes

datatype node = Text pystr | Elem pystr "node list"

record extracted_table =
  table_id :: pystr
  tb_data :: records
  tb_columns :: "pystr list"

text \<open>
  The dict \<open>fetch_url_content\<close> returns, by its \<open>type\<close> key, or the dict of the
  \<open>except\<close> branch.
\<close>

datatype fetch_result =
    Html "extracted_table list" pystr
  | Pdf pystr
  | Unknown pystr
  | Failure pystr

fun status :: "fetch_result \<Rightarrow> pystr" where
  "status (Failure m) = ascii ''error''"
| "status r = ascii ''success''"

fun message :: "fetch_result \<Rightarrow> pystr option" where
  "message (Failure m) = Some m"
| "message r = None"

section \<open>The libraries the script calls\<close>

text \<open>
  The script is glue over pandas, matplotlib, requests, BeautifulSoup, PyPDF2,
  python-docx, openpyxl and the agent of \<open>utils\<close>. Their code is not part of the
  repository, so each call is a field of this record; a call that can raise returns
  \<open>exn + 'a\<close>.
\<close>

record libs =
  dataframe_agent :: "frame \<Rightarrow> pystr \<Rightarrow> exn + analysis_result"
  style_use :: "pystr \<Rightarrow> exn + unit"
  pd_DataFrame_xy :: "pystr list \<Rightarrow> int list \<Rightarrow> exn + frame"
  pd_DataFrame :: "cell list list \<Rightarrow> pystr list \<Rightarrow> exn + frame"
  pd_DataFrame_records :: "records \<Rightarrow> exn + frame"
  urlparse_scheme :: "pystr \<Rightarrow> exn + pystr"
  requests_get :: "pystr \<Rightarrow> exn + response"
  raise_for_status :: "response \<Rightarrow> exn + unit"
  BeautifulSoup :: "pystr \<Rightarrow> exn + node"
  BeautifulSoup_bytes :: "bytes \<Rightarrow> exn + node"
  find_all :: "pystr list \<Rightarrow> node \<Rightarrow> node list"
  decompose :: "node \<Rightarrow> node \<Rightarrow> node"
  get_text :: "bool \<Rightarrow> node \<Rightarrow> pystr"
  node_str :: "node \<Rightarrow> pystr"
  pd_read_html :: "pystr \<Rightarrow> exn + frame list"
  to_dict_records :: "frame \<Rightarrow> records"
  pdf_pages_text :: "bytes \<Rightarrow> exn + pystr list"
  docx_paragraphs :: "bytes \<Rightarrow> exn + pystr list"
  load_workbook_sheetnames :: "bytes \<Rightarrow> exn + pystr list"
  pd_read_excel :: "bytes \<Rightarrow> pystr \<Rightarrow> exn + frame"
  pd_read_csv :: "bytes \<Rightarrow> exn + frame"

section \<open>Side effects\<close>

text \<open>
  What a run of the script does besides computing values is a trace of effects, in the
  order the calls are made: the Streamlit calls, \<open>time.sleep\<close>, the HTTP request and the
  agent invocation. A figure is described by what was drawn on it.
\<close>

record figure =
  fig_kind :: pystr
  fig_x :: "pystr list"
  fig_y :: "int list"
  fig_colors :: nat
  fig_annotations :: "int list"
  fig_title :: pystr
  fig_xlabel :: pystr
  fig_ylabel :: pystr
  fig_grid :: bool

datatype style = Highlight_max | Background_gradient pystr

datatype effect =
    St_warning pystr
  | St_error pystr
  | St_success pystr
  | St_spinner pystr
  | St_subheader pystr
  | St_expander pystr bool
  | St_markdown pystr
  | St_text_area pystr
  | St_selectbox pystr "pystr list"
  | St_dataframe style frame
  | St_pyplot figure
  | Time_sleep
  | Requests_get pystr
  | Call_agent frame pystr

text \<open>
  A computation that may raise: the effects it made and its outcome. \<open>then_run\<close> is
  Python's sequencing: the second statement runs only if the first did not raise.
\<close>

type_synonym 'a run = "effect list \<times> (exn + 'a)"

definition then_run :: "'a run \<Rightarrow> ('a \<Rightarrow> 'b run) \<Rightarrow> 'b run" where
  "then_run m k =
     (case m of
        (tr, Inl e) \<Rightarrow> (tr, Inl e)
      | (tr, Inr x) \<Rightarrow> (case k x of (tr', r) \<Rightarrow> (tr @ tr', r)))"

definition emit :: "effect \<Rightarrow> unit run" where
  "emit e = ([e], Inr ())"

definition lib_call :: "exn + 'a \<Rightarrow> 'a run" where
  "lib_call r = ([], r)"

definition skip :: "unit run" where
  "skip = ([], Inr ())"

section \<open>create_chart\<close>

definition bar_title :: pystr where "bar_title = [32479, 35745, 22270, 34920]"
definition bar_x_label :: pystr where "bar_x_label = [31867, 21035]"
definition line_title :: pystr where "line_title = [36235, 21183, 22270, 34920]"
definition line_x_label :: pystr where "line_x_label = [26102, 38388, 47, 31867, 21035]"
definition default_y_label :: pystr where "default_y_label = [25968, 20540]"

text \<open>\<open>d.get(key, default)\<close> on an optional key.\<close>

definition get_default :: "'a option \<Rightarrow> 'a \<Rightarrow> 'a" where
  "get_default v d = (case v of None \<Rightarrow> d | Some x \<Rightarrow> x)"

text \<open>
  The style is selected and the x/y frame is built before either branch; the frame is
  thrown away, so its construction only matters when it raises. The figure is shown by
  the \<open>st.pyplot\<close> call that ends each branch.
\<close>

definition create_chart :: "libs \<Rightarrow> chart_spec \<Rightarrow> pystr \<Rightarrow> unit run" where
  "create_chart L input_data chart_type =
     then_run (lib_call (style_use L (ascii ''seaborn-white grid''))) (\<lambda>_.
     then_run (lib_call (pd_DataFrame_xy L (columns input_data) (data input_data))) (\<lambda>_.
       if chart_type = ascii ''bar'' then
         emit (St_pyplot \<lparr>
           fig_kind = ascii ''bar'',
           fig_x = columns input_data,
           fig_y = data input_data,
           fig_colors = length (columns input_data),
           fig_annotations = data input_data,
           fig_title = get_default (title input_data) bar_title,
           fig_xlabel = get_default (x_label input_data) bar_x_label,
           fig_ylabel = get_default (y_label input_data) default_y_label,
           fig_grid = False\<rparr>)
       else if chart_type = ascii ''line'' then
         emit (St_pyplot \<lparr>
           fig_kind = ascii ''line'',
           fig_x = columns input_data,
           fig_y = data input_data,
           fig_colors = 1,
           fig_annotations = [],
           fig_title = get_default (title input_data) line_title,
           fig_xlabel = get_default (x_label input_data) line_x_label,
           fig_ylabel = get_default (y_label input_data) default_y_label,
           fig_grid = True\<rparr>)
       else skip))"

section \<open>display_result\<close>

text \<open>
  \<open>str.split()\<close> without arguments splits on runs of whitespace and drops empty
  pieces; \<open>is_space\<close> lists the code points for which \<open>str.isspace\<close> holds.
\<close>

definition is_space :: "nat \<Rightarrow> bool" where
  "is_space c \<longleftrightarrow>
     (9 \<le> c \<and> c \<le> 13) \<or> (28 \<le> c \<and> c \<le> 32) \<or> c = 133 \<or> c = 160 \<or> c = 5760 \<or>
     (8192 \<le> c \<and> c \<le> 8202) \<or> c = 8232 \<or> c = 8233 \<or> c = 8239 \<or> c = 8287 \<or> c = 12288"

fun split_acc :: "pystr \<Rightarrow> pystr \<Rightarrow> pystr list" where
  "split_acc cur [] = (if cur = [] then [] else [cur])"
| "split_acc cur (c # cs) =
     (if is_space c then (if cur = [] then split_acc [] cs else cur # split_acc [] cs)
      else split_acc (cur @ [c]) cs)"

definition split :: "pystr \<Rightarrow> pystr list" where
  "split s = split_acc [] s"

definition card :: "pystr \<Rightarrow> pystr" where
  "card body = ascii ''<div class='card'>'' @ body @ ascii ''</div>''"

definition cursor :: pystr where "cursor = [9612]"

text \<open>
  The loop over the chunks: each chunk and a space are appended to \<open>full_response\<close>,
  which is shown with the cursor, followed by the pause. It returns \<open>full_response\<close>.
\<close>

fun type_out :: "pystr \<Rightarrow> pystr list \<Rightarrow> effect list \<times> pystr" where
  "type_out full_response [] = ([], full_response)"
| "type_out full_response (chunk # chunks) =
     (let full' = full_response @ chunk @ ascii '' '' in
      case type_out full' chunks of
        (tr, final) \<Rightarrow> (St_markdown (card (full' @ cursor)) # Time_sleep # tr, final))"

definition sec_answer :: pystr where "sec_answer = [20998, 26512, 32467, 26524]"
definition sec_table :: pystr where "sec_table = [25968, 25454, 34920, 26684]"
definition sec_bar :: pystr where "sec_bar = [26609, 29366, 22270]"
definition sec_line :: pystr where "sec_line = [25240, 32447, 22270]"

definition show_answer :: "pystr \<Rightarrow> unit run" where
  "show_answer a =
     (case type_out [] (split a) of
        (tr, final) \<Rightarrow> (St_expander sec_answer True # tr @ [St_markdown (card final)], Inr ()))"

definition show_table :: "libs \<Rightarrow> table_spec \<Rightarrow> unit run" where
  "show_table L t =
     then_run (emit (St_expander sec_table True)) (\<lambda>_.
     then_run (lib_call (pd_DataFrame L (tdata t) (tcolumns t))) (\<lambda>df.
       emit (St_dataframe Highlight_max df)))"

definition show_chart :: "libs \<Rightarrow> pystr \<Rightarrow> chart_spec \<Rightarrow> pystr \<Rightarrow> unit run" where
  "show_chart L label spec chart_type =
     then_run (emit (St_expander label True)) (\<lambda>_. create_chart L spec chart_type)"

definition display_result :: "libs \<Rightarrow> analysis_result \<Rightarrow> unit run" where
  "display_result L analysis_result =
     then_run (case answer analysis_result of None \<Rightarrow> skip | Some a \<Rightarrow> show_answer a) (\<lambda>_.
     then_run (case table analysis_result of None \<Rightarrow> skip | Some t \<Rightarrow> show_table L t) (\<lambda>_.
     then_run (case bar analysis_result of None \<Rightarrow> skip
               | Some b \<Rightarrow> show_chart L sec_bar b (ascii ''bar'')) (\<lambda>_.
       case line analysis_result of None \<Rightarrow> skip
       | Some l \<Rightarrow> show_chart L sec_line l (ascii ''line''))))"

section \<open>Session state and the analysis trigger\<close>

record session =
  df :: "frame option"
  text_content :: "pystr option"
  uploaded_file :: "bytes option"
  input_url :: "pystr option"

definition initial_session :: session where
  "initial_session = \<lparr>df = None, text_content = None, uploaded_file = None, input_url = None\<rparr>"

datatype input_method = Upload_file | Input_url

definition text_result_label :: pystr where
  "text_result_label = [25991, 26412, 20998, 26512, 32467, 26524, 58, 10, 10]"

definition none_not_subscriptable :: exn where
  "none_not_subscriptable =
     Exception ''TypeError''
       ([39] @ ascii ''NoneType'' @ [39] @ ascii '' object is not subscriptable'')"

text \<open>
  The body of the \<open>try\<close> up to \<open>display_result\<close>: the agent is called when a frame is
  stored, otherwise the stored text is sliced, which raises when no text is stored.
\<close>

definition analysis :: "libs \<Rightarrow> session \<Rightarrow> pystr \<Rightarrow> analysis_result run" where
  "analysis L s query =
     (case df s of
        Some f \<Rightarrow> then_run (emit (Call_agent f query)) (\<lambda>_. lib_call (dataframe_agent L f query))
      | None \<Rightarrow>
          (case text_content s of
             None \<Rightarrow> ([], Inl none_not_subscriptable)
           | Some t \<Rightarrow>
               ([], Inr \<lparr>answer = Some (text_result_label @ take 3000 t),
                         table = None, bar = None, line = None\<rparr>)))"

definition warn_source :: pystr where
  "warn_source = [35831, 20808, 25552, 20379, 25968, 25454, 28304]"
definition warn_query :: pystr where
  "warn_query = [35831, 36755, 20837, 20998, 26512, 38656, 27714]"
definition err_prefix :: pystr where
  "err_prefix = [20998, 26512, 36807, 31243, 20013, 21457, 29983, 38169, 35823, 58, 32]"
definition spinner_msg :: pystr where
  "spinner_msg = [26234, 33021, 20998, 26512, 20013, 65292, 35831, 31245, 20505, 46, 46, 46]"

text \<open>
  \<open>not st.session_state.uploaded_file\<close> holds when no file is uploaded;
  \<open>not st.session_state.input_url\<close> holds for \<open>None\<close> and for the empty string.
\<close>

definition source_missing :: "input_method \<Rightarrow> session \<Rightarrow> bool" where
  "source_missing im s \<longleftrightarrow>
     (im = Upload_file \<and> uploaded_file s = None) \<or>
     (im = Input_url \<and> (input_url s = None \<or> input_url s = Some []))"

text \<open>
  The handler of the button: what is shown, and the session state after it. Nothing in
  the handler assigns to the session state.
\<close>

definition analyze_button :: "libs \<Rightarrow> input_method \<Rightarrow> session \<Rightarrow> pystr \<Rightarrow> effect list \<times> session" where
  "analyze_button L im s query =
     (if source_missing im s then ([St_warning warn_source], s)
      else if query = [] then ([St_warning warn_query], s)
      else
        (case then_run (analysis L s query) (display_result L) of
           (tr, Inl e) \<Rightarrow> (St_spinner spinner_msg # tr @ [St_error (err_prefix @ exn_str e)], s)
         | (tr, Inr _) \<Rightarrow> (St_spinner spinner_msg # tr, s)))"

text \<open>
  The widgets of the query area: the text area is created with
  \<open>disabled=not (df is not None or text_content is not None)\<close>, the button with no
  \<open>disabled\<close> argument, whose default is \<open>False\<close>.
\<close>

definition query_input_disabled :: "session \<Rightarrow> bool" where
  "query_input_disabled s \<longleftrightarrow> \<not> (df s \<noteq> None \<or> text_content s \<noteq> None)"

definition analyze_button_disabled :: "input_method \<Rightarrow> session \<Rightarrow> pystr \<Rightarrow> bool" where
  "analyze_button_disabled im s query \<longleftrightarrow> False"

section \<open>fetch_url_content\<close>

text \<open>\<open>sub in s\<close> on strings, \<open>str(i)\<close> on a natural number, \<open>xs[0]\<close> on a list.\<close>

fun substring_in :: "pystr \<Rightarrow> pystr \<Rightarrow> bool" where
  "substring_in sub [] = (sub = [])"
| "substring_in sub (c # cs) = (take (length sub) (c # cs) = sub \<or> substring_in sub cs)"

fun str_nat :: "nat \<Rightarrow> pystr" where
  "str_nat n = (if n < 10 then [48 + n] else str_nat (n div 10) @ [48 + n mod 10])"

definition index_error :: exn where
  "index_error = Exception ''IndexError'' (ascii ''list index out of range'')"

definition first :: "'a list \<Rightarrow> exn + 'a" where
  "first xs = (case xs of [] \<Rightarrow> Inl index_error | x # _ \<Rightarrow> Inr x)"

text \<open>A list comprehension whose element expression may raise: the first exception ends it.\<close>

fun comprehension :: "('a \<Rightarrow> exn + 'b) \<Rightarrow> 'a list \<Rightarrow> exn + 'b list" where
  "comprehension f [] = Inr []"
| "comprehension f (x # xs) =
     (case f x of
        Inl e \<Rightarrow> Inl e
      | Inr y \<Rightarrow> (case comprehension f xs of Inl e \<Rightarrow> Inl e | Inr ys \<Rightarrow> Inr (y # ys)))"

text \<open>
  One element of the \<open>tables\<close> comprehension: the dict display evaluates \<open>table_id\<close>,
  then \<open>data\<close>, then \<open>columns\<close>, and the table is read by pandas once for each of the
  last two.
\<close>

definition extract_table :: "libs \<Rightarrow> nat \<times> node \<Rightarrow> exn + extracted_table" where
  "extract_table L it =
     (case it of (i, tbl) \<Rightarrow>
        (case pd_read_html L (node_str L tbl) of
           Inl e \<Rightarrow> Inl e
         | Inr fs \<Rightarrow>
             (case first fs of
                Inl e \<Rightarrow> Inl e
              | Inr f \<Rightarrow>
                  (case pd_read_html L (node_str L tbl) of
                     Inl e \<Rightarrow> Inl e
                   | Inr fs' \<Rightarrow>
                       (case first fs' of
                          Inl e \<Rightarrow> Inl e
                        | Inr f' \<Rightarrow>
                            Inr \<lparr>table_id = ascii ''table_'' @ str_nat i,
                                 tb_data = to_dict_records L f,
                                 tb_columns = fcols f'\<rparr>)))))"

text \<open>The loop that decomposes every script and style element of the parsed page.\<close>

definition strip_scripts :: "libs \<Rightarrow> node \<Rightarrow> node" where
  "strip_scripts L soup =
     fold (decompose L) (find_all L [ascii ''script'', ascii ''style''] soup) soup"

text \<open>The classification of the response by its declared content type.\<close>

definition classify :: "libs \<Rightarrow> response \<Rightarrow> fetch_result run" where
  "classify L response =
     (let ctype = get_default (content_type response) [] in
      if substring_in (ascii ''text/html'') ctype then
        then_run (lib_call (BeautifulSoup L (resp_text response))) (\<lambda>soup.
        then_run (lib_call (comprehension (extract_table L)
                    (enumerate 0 (find_all L [ascii ''table''] soup)))) (\<lambda>tables.
          ([], Inr (Html tables (get_text L True (strip_scripts L soup))))))
      else if substring_in (ascii ''application/pdf'') ctype then
        then_run (lib_call (pdf_pages_text L (content response))) (\<lambda>pages.
          ([], Inr (Pdf (concat pages))))
      else ([], Inr (Unknown (resp_text response))))"

text \<open>The body of the \<open>try\<close> block: the request, then the classification.\<close>

definition fetch_body :: "libs \<Rightarrow> pystr \<Rightarrow> fetch_result run" where
  "fetch_body L target_url =
     then_run (lib_call (urlparse_scheme L target_url)) (\<lambda>scheme.
     let target_url = (if scheme = [] then ascii ''https://'' @ target_url else target_url) in
     then_run (emit (Requests_get target_url)) (\<lambda>_.
     then_run (lib_call (requests_get L target_url)) (\<lambda>response.
     then_run (lib_call (raise_for_status L response)) (\<lambda>_.
       classify L response))))"

text \<open>\<open>except Exception as e\<close>: whatever the body raised becomes the failure dict.\<close>

definition fetch_url_content :: "libs \<Rightarrow> pystr \<Rightarrow> fetch_result run" where
  "fetch_url_content L target_url =
     (case fetch_body L target_url of
        (tr, Inl e) \<Rightarrow> (tr, Inr (Failure (exn_str e)))
      | (tr, Inr r) \<Rightarrow> (tr, Inr r))"

section \<open>The file normalizers\<close>

fun join :: "pystr \<Rightarrow> pystr list \<Rightarrow> pystr" where
  "join sep [] = []"
| "join sep [x] = x"
| "join sep (x # y # ys) = x @ sep @ join sep (y # ys)"

definition process_word_file :: "libs \<Rightarrow> bytes \<Rightarrow> exn + pystr" where
  "process_word_file L file =
     (case docx_paragraphs L file of Inl e \<Rightarrow> Inl e | Inr paras \<Rightarrow> Inr (join [10] paras))"

definition process_html_file :: "libs \<Rightarrow> bytes \<Rightarrow> exn + pystr" where
  "process_html_file L file =
     (case BeautifulSoup_bytes L file of
        Inl e \<Rightarrow> Inl e
      | Inr soup \<Rightarrow> Inr (get_text L False (strip_scripts L soup)))"

definition process_pdf_file :: "libs \<Rightarrow> bytes \<Rightarrow> exn + pystr" where
  "process_pdf_file L file =
     (case pdf_pages_text L file of Inl e \<Rightarrow> Inl e | Inr pages \<Rightarrow> Inr (concat pages))"

section \<open>Ingestion\<close>

datatype file_type = Excel | CSV | Word | HTML | PDF

definition hdr_data :: pystr where "hdr_data = [25968, 25454, 39044, 35272]"
definition lbl_sheet :: pystr where "lbl_sheet = [36873, 25321, 24037, 20316, 34920, 58]"
definition lbl_doc :: pystr where "lbl_doc = [25991, 26723, 20869, 23481, 39044, 35272]"
definition lbl_html :: pystr where "lbl_html = [72, 84, 77, 76, 20869, 23481, 39044, 35272]"
definition lbl_pdf :: pystr where "lbl_pdf = [80, 68, 70, 20869, 23481, 39044, 35272]"
definition hdr_url :: pystr where "hdr_url = [85, 82, 76, 20869, 23481, 39044, 35272]"
definition lbl_page :: pystr where "lbl_page = [32593, 39029, 25991, 26412, 20869, 23481]"
definition lbl_content :: pystr where "lbl_content = [20869, 23481, 39044, 35272]"
definition fetching_msg :: pystr where
  "fetching_msg = [33719, 21462, 20869, 23481, 20013, 46, 46, 46]"
definition extracted_1 :: pystr where
  "extracted_1 = [25104, 21151, 20174, 32593, 39029, 20013, 25552, 21462, 20102, 32]"
definition extracted_2 :: pystr where "extracted_2 = [32, 20010, 34920, 26684]"
definition url_err :: pystr where "url_err = [38169, 35823, 58, 32]"

definition key_error_content :: exn where
  "key_error_content = Exception ''KeyError'' ([39] @ ascii ''content'' @ [39])"

text \<open>The preview of a text: \<open>t[:2000] + ("..." if len(t) > 2000 else "")\<close>.\<close>

definition preview_text :: "pystr \<Rightarrow> pystr" where
  "preview_text t = take 2000 t @ (if length t > 2000 then ascii ''...'' else [])"

definition show_text :: "pystr \<Rightarrow> pystr \<Rightarrow> effect list" where
  "show_text label t = [St_expander label False, St_text_area (preview_text t)]"

text \<open>
  An assignment \<open>st.session_state.text_content = ...\<close> followed by the preview, and an
  assignment \<open>st.session_state.df = ...\<close> followed by the styled head: when the right-hand
  side raises, nothing is assigned.
\<close>

definition store_text :: "pystr \<Rightarrow> exn + pystr \<Rightarrow> session \<Rightarrow> unit run \<times> session" where
  "store_text label r s =
     (case r of
        Inl e \<Rightarrow> (([], Inl e), s)
      | Inr t \<Rightarrow> ((show_text label t, Inr ()), s\<lparr>text_content := Some t\<rparr>))"

definition store_frame :: "pystr \<Rightarrow> nat \<Rightarrow> exn + frame \<Rightarrow> session \<Rightarrow> unit run \<times> session" where
  "store_frame cmap n r s =
     (case r of
        Inl e \<Rightarrow> (([], Inl e), s)
      | Inr f \<Rightarrow> (([St_dataframe (Background_gradient cmap) (head n f)], Inr ()), s\<lparr>df := Some f\<rparr>))"

definition after :: "effect list \<Rightarrow> unit run \<times> session \<Rightarrow> unit run \<times> session" where
  "after pre r = (case r of ((tr, out), s) \<Rightarrow> ((pre @ tr, out), s))"

text \<open>The branch for an uploaded file; \<open>sheet_choice\<close> is the value of the sheet selector.\<close>

definition upload_preview :: "libs \<Rightarrow> file_type \<Rightarrow> pystr \<Rightarrow> bytes \<Rightarrow> session \<Rightarrow> unit run \<times> session" where
  "upload_preview L ft sheet_choice file s =
     after [St_subheader hdr_data]
       (case ft of
          Excel \<Rightarrow>
            (case load_workbook_sheetnames L file of
               Inl e \<Rightarrow> (([], Inl e), s)
             | Inr sheet_names \<Rightarrow>
                 (if length sheet_names > 1 then
                    after [St_selectbox lbl_sheet sheet_names]
                      (store_frame (ascii ''Blues'') 2000 (pd_read_excel L file sheet_choice) s)
                  else
                    (case first sheet_names of
                       Inl e \<Rightarrow> (([], Inl e), s)
                     | Inr sheet \<Rightarrow>
                         store_frame (ascii ''Blues'') 2000 (pd_read_excel L file sheet) s)))
        | CSV \<Rightarrow> store_frame (ascii ''Blues'') 2000 (pd_read_csv L file) s
        | Word \<Rightarrow> store_text lbl_doc (process_word_file L file) s
        | HTML \<Rightarrow> store_text lbl_html (process_html_file L file) s
        | PDF \<Rightarrow> store_text lbl_pdf (process_pdf_file L file) s)"

text \<open>
  The branch for a URL. For a page, the first extracted table becomes the stored frame
  and the page text is only previewed. Otherwise \<open>content.get("text") or
  content["content"]\<close> is stored: the text of a PDF unless it is empty, in which case the
  missing \<open>content\<close> key raises, and the raw body of anything else.
\<close>

definition url_preview :: "libs \<Rightarrow> pystr \<Rightarrow> session \<Rightarrow> unit run \<times> session" where
  "url_preview L url s =
     (case fetch_url_content L url of
        (tr, Inl e) \<Rightarrow> (([St_subheader hdr_url, St_spinner fetching_msg] @ tr, Inl e), s)
      | (tr, Inr fetched) \<Rightarrow>
          after ([St_subheader hdr_url, St_spinner fetching_msg] @ tr)
            (case fetched of
               Html tables page_text \<Rightarrow>
                 (case tables of
                    [] \<Rightarrow> ((show_text lbl_page page_text, Inr ()), s)
                  | t0 # _ \<Rightarrow>
                      after [St_success (extracted_1 @ str_nat (length tables) @ extracted_2)]
                        (case store_frame (ascii ''Greens'') 10 (pd_DataFrame_records L (tb_data t0)) s of
                           ((tr', Inl e), s') \<Rightarrow> ((tr', Inl e), s')
                         | ((tr', Inr _), s') \<Rightarrow> ((tr' @ show_text lbl_page page_text, Inr ()), s')))
             | Pdf t \<Rightarrow>
                 store_text lbl_content (if t \<noteq> [] then Inr t else Inl key_error_content) s
             | Unknown c \<Rightarrow> store_text lbl_content (Inr c) s
             | Failure m \<Rightarrow> (([St_error (url_err @ m)], Inr ()), s)))"

text \<open>
  One run of the script, which Streamlit repeats on every interaction: the widgets put
  the uploaded file or the URL into the session state, the preview area ingests it, and
  the handler runs when the button was pressed. An exception outside the handler ends
  the run, and the assignments made before it stay.
\<close>

record widgets =
  w_input_method :: input_method
  w_file_type :: file_type
  w_uploaded :: "bytes option"
  w_sheet :: pystr
  w_url :: pystr
  w_query :: pystr
  w_clicked :: bool

definition data_preview :: "libs \<Rightarrow> widgets \<Rightarrow> session \<Rightarrow> unit run \<times> session" where
  "data_preview L w s =
     (case (w_input_method w, uploaded_file s, input_url s) of
        (Upload_file, Some file, _) \<Rightarrow> upload_preview L (w_file_type w) (w_sheet w) file s
      | (Upload_file, None, _) \<Rightarrow> (skip, s)
      | (Input_url, _, Some url) \<Rightarrow> (if url \<noteq> [] then url_preview L url s else (skip, s))
      | (Input_url, _, None) \<Rightarrow> (skip, s))"

definition rerun :: "libs \<Rightarrow> widgets \<Rightarrow> session \<Rightarrow> unit run \<times> session" where
  "rerun L w s =
     (let s1 = (case w_input_method w of
                  Upload_file \<Rightarrow> s\<lparr>uploaded_file := w_uploaded w\<rparr>
                | Input_url \<Rightarrow> s\<lparr>input_url := Some (w_url w)\<rparr>)
      in case data_preview L w s1 of
           ((tr, Inl e), s2) \<Rightarrow> ((tr, Inl e), s2)
         | ((tr, Inr _), s2) \<Rightarrow>
             (if w_clicked w then
                (case analyze_button L (w_input_method w) s2 (w_query w) of
                   (tr', s3) \<Rightarrow> ((tr @ tr', Inr ()), s3))
              else ((tr, Inr ()), s2)))"

text \<open>The session states a user can reach from a fresh session.\<close>

inductive reachable :: "libs \<Rightarrow> session \<Rightarrow> bool" for L :: libs where
  fresh: "reachable L initial_session"
| interaction: "reachable L s \<Longrightarrow> reachable L (snd (rerun L w s))"

section \<open>A small instance of the libraries\<close>

text \<open>
  The model is run on examples against these stand-ins: a style library that accepts
  every name, frame constructors that reject ragged input, a parser of URL schemes, a
  client that answers every request with the same page, and tree operations on parsed
  markup.
\<close>

fun descendants :: "node \<Rightarrow> node list" where
  "descendants (Text t) = []"
| "descendants (Elem tag kids) = concat (map (\<lambda>k. k # descendants k) kids)"

fun has_tag :: "pystr list \<Rightarrow> node \<Rightarrow> bool" where
  "has_tag names (Text t) = False"
| "has_tag names (Elem tag kids) = (tag \<in> set names)"

fun remove_node :: "node \<Rightarrow> node \<Rightarrow> node" where
  "remove_node n (Text t) = Text t"
| "remove_node n (Elem tag kids) = Elem tag (map (remove_node n) (filter (\<lambda>k. k \<noteq> n) kids))"

fun texts :: "node \<Rightarrow> pystr list" where
  "texts (Text t) = [t]"
| "texts (Elem tag kids) = concat (map texts kids)"

fun markup :: "node \<Rightarrow> pystr" where
  "markup (Text t) = t"
| "markup (Elem tag kids) =
     ascii ''<'' @ tag @ ascii ''>'' @ concat (map markup kids) @ ascii ''</'' @ tag @ ascii ''>''"

definition strip :: "pystr \<Rightarrow> pystr" where
  "strip t = rev (dropWhile is_space (rev (dropWhile is_space t)))"

definition scheme_char :: "nat \<Rightarrow> bool" where
  "scheme_char c \<longleftrightarrow>
     (48 \<le> c \<and> c \<le> 57) \<or> (65 \<le> c \<and> c \<le> 90) \<or> (97 \<le> c \<and> c \<le> 122) \<or> c = 43 \<or> c = 45 \<or> c = 46"

definition scheme_of :: "pystr \<Rightarrow> pystr" where
  "scheme_of url =
     (let pre = takeWhile (\<lambda>c. c \<noteq> 58) url
      in if length pre < length url \<and> pre \<noteq> [] \<and> list_all scheme_char pre \<and> 65 \<le> hd pre
         then pre else [])"

definition example_page :: node where
  "example_page =
     Elem (ascii ''html'')
       [Elem (ascii ''head'')
          [Elem (ascii ''style'') [Text (ascii ''p {}'')],
           Elem (ascii ''script'') [Text (ascii ''run()'')]],
        Elem (ascii ''body'')
          [Elem (ascii ''p'') [Text (ascii '' Prices '')],
           Elem (ascii ''table'') [Elem (ascii ''tr'') [Elem (ascii ''td'') [Text (ascii ''a'')]]],
           Elem (ascii ''table'') [Elem (ascii ''tr'') [Elem (ascii ''td'') [Text (ascii ''b'')]]]]]"

definition example_libs :: libs where
  "example_libs = \<lparr>
     dataframe_agent = (\<lambda>f query.
       Inr \<lparr>answer = Some (ascii ''done''), table = None, bar = None, line = None\<rparr>),
     style_use = (\<lambda>name. Inr ()),
     pd_DataFrame_xy = (\<lambda>xs ys.
       if length xs = length ys
       then Inr \<lparr>fcols = [ascii ''y''], frows = map (\<lambda>y. [CInt y]) ys\<rparr>
       else Inl (Exception ''ValueError'' (ascii ''All arrays must be of the same length''))),
     pd_DataFrame = (\<lambda>rows cols.
       if list_all (\<lambda>r. length r = length cols) rows
       then Inr \<lparr>fcols = cols, frows = rows\<rparr>
       else Inl (Exception ''ValueError'' (ascii ''columns do not match the data''))),
     pd_DataFrame_records = (\<lambda>recs.
       Inr \<lparr>fcols = (case recs of [] \<Rightarrow> [] | r # _ \<Rightarrow> map fst r), frows = map (map snd) recs\<rparr>),
     urlparse_scheme = (\<lambda>url. Inr (scheme_of url)),
     requests_get = (\<lambda>url.
       Inr \<lparr>status_code = 200, content_type = Some (ascii ''text/html; charset=utf-8''),
            resp_text = url, content = []\<rparr>),
     raise_for_status = (\<lambda>r.
       if 400 \<le> status_code r \<and> status_code r < 600
       then Inl (Exception ''HTTPError'' (str_nat (status_code r)))
       else Inr ()),
     BeautifulSoup = (\<lambda>t. Inr example_page),
     BeautifulSoup_bytes = (\<lambda>b. Inr example_page),
     find_all = (\<lambda>names soup. filter (has_tag names) (descendants soup)),
     decompose = remove_node,
     get_text = (\<lambda>strp soup.
       if strp then concat (filter (\<lambda>t. t \<noteq> []) (map strip (texts soup)))
       else concat (texts soup)),
     node_str = markup,
     pd_read_html = (\<lambda>s.
       if s = ascii ''<table></table>''
       then Inl (Exception ''ValueError'' (ascii ''No tables found''))
       else Inr [\<lparr>fcols = [s], frows = []\<rparr>]),
     to_dict_records = (\<lambda>f. map (zip (fcols f)) (frows f)),
     pdf_pages_text = (\<lambda>b. Inr [ascii b]),
     docx_paragraphs = (\<lambda>b. Inr [ascii b]),
     load_workbook_sheetnames = (\<lambda>b. Inr [ascii ''Sheet1'']),
     pd_read_excel = (\<lambda>b sheet. Inr \<lparr>fcols = [sheet], frows = []\<rparr>),
     pd_read_csv = (\<lambda>b. Inr \<lparr>fcols = [ascii b], frows = []\<rparr>)\<rparr>"

section \<open>Observations on traces\<close>

text \<open>
  What a trace shows of each kind: the agent invocations, the requests, the sections
  opened (by the label of their expander) and the figures shown.
\<close>

fun agent_calls :: "effect list \<Rightarrow> (frame \<times> pystr) list" where
  "agent_calls [] = []"
| "agent_calls (Call_agent f q # tr) = (f, q) # agent_calls tr"
| "agent_calls (e # tr) = agent_calls tr"


fun sections :: "effect list \<Rightarrow> pystr list" where
  "sections [] = []"
| "sections (St_expander label expanded # tr) = label # sections tr"
| "sections (e # tr) = sections tr"

fun figures :: "effect list \<Rightarrow> figure list" where
  "figures [] = []"
| "figures (St_pyplot fig # tr) = fig # figures tr"
| "figures (e # tr) = figures tr"

text \<open>The sections \<open>display_result\<close> has a branch for, by the keys present, in its order.\<close>

definition present_sections :: "analysis_result \<Rightarrow> pystr list" where
  "present_sections r =
     (if answer r \<noteq> None then [sec_answer] else []) @
     (if table r \<noteq> None then [sec_table] else []) @
     (if bar r \<noteq> None then [sec_bar] else []) @
     (if line r \<noteq> None then [sec_line] else [])"

section \<open>Example inputs\<close>

definition example_frame :: frame where
  "example_frame = \<lparr>fcols = [ascii ''n''], frows = [[CInt 1], [CInt 2]]\<rparr>"

definition example_chart :: chart_spec where
  "example_chart =
     \<lparr>columns = [ascii ''a'', ascii ''b''], data = [1, 2],
      title = None, x_label = None, y_label = None\<rparr>"


definition full_result :: analysis_result where
  "full_result =
     \<lparr>answer = Some (ascii ''two rows''),
      table = Some \<lparr>tdata = [[CInt 1], [CInt 2]], tcolumns = [ascii ''n'']\<rparr>,
      bar = Some example_chart, line = Some example_chart\<rparr>"

definition bar_only_result :: analysis_result where
  "bar_only_result = \<lparr>answer = None, table = None, bar = Some example_chart, line = None\<rparr>"

definition session_with_text :: session where
  "session_with_text =
     \<lparr>df = None, text_content = Some (ascii ''abc''),
      uploaded_file = Some ''abc'', input_url = None\<rparr>"

definition session_with_both :: session where
  "session_with_both =
     \<lparr>df = Some example_frame, text_content = Some (ascii ''abc''),
      uploaded_file = Some ''abc'', input_url = None\<rparr>"

text \<open>
  An agent that raises, an agent that answers with a ragged bar chart, and a style
  library that knows its styles by name.
\<close>

definition failing_agent_libs :: libs where
  "failing_agent_libs =
     example_libs\<lparr>dataframe_agent :=
       (\<lambda>f query. Inl (Exception ''RuntimeError'' (ascii ''model unavailable'')))\<rparr>"


definition named_style_libs :: libs where
  "named_style_libs =
     example_libs\<lparr>style_use :=
       (\<lambda>name. if name \<in> set [ascii ''default'', ascii ''classic'', ascii ''ggplot'',
                                 ascii ''seaborn-white'', ascii ''seaborn-whitegrid'']
               then Inr () else Inl (Exception ''OSError'' name))\<rparr>"

text \<open>
  A network that is down, a server that answers 404, a page whose table is empty, and a
  page whose second table is empty.
\<close>

definition offline_libs :: libs where
  "offline_libs =
     example_libs\<lparr>requests_get :=
       (\<lambda>url. Inl (Exception ''ConnectionError'' (ascii ''host unreachable'')))\<rparr>"

definition not_found_libs :: libs where
  "not_found_libs =
     example_libs\<lparr>requests_get :=
       (\<lambda>url. Inr \<lparr>status_code = 404, content_type = Some (ascii ''text/html''),
                    resp_text = [], content = []\<rparr>)\<rparr>"

definition empty_table_page :: node where
  "empty_table_page = Elem (ascii ''body'') [Elem (ascii ''table'') []]"

definition empty_table_libs :: libs where
  "empty_table_libs = example_libs\<lparr>BeautifulSoup := (\<lambda>t. Inr empty_table_page)\<rparr>"

definition half_empty_page :: node where
  "half_empty_page =
     Elem (ascii ''body'')
       [Elem (ascii ''table'') [Elem (ascii ''tr'') [Elem (ascii ''td'') [Text (ascii ''a'')]]],
        Elem (ascii ''table'') []]"

definition half_empty_libs :: libs where
  "half_empty_libs = example_libs\<lparr>BeautifulSoup := (\<lambda>t. Inr half_empty_page)\<rparr>"

text \<open>Two interactions: a CSV file is uploaded, then a Word document.\<close>

definition upload_csv :: widgets where
  "upload_csv =
     \<lparr>w_input_method = Upload_file, w_file_type = CSV, w_uploaded = Some ''n,1,2'',
      w_sheet = [], w_url = [], w_query = [], w_clicked = False\<rparr>"

definition upload_word :: widgets where
  "upload_word = upload_csv\<lparr>w_file_type := Word, w_uploaded := Some ''notes''\<rparr>"

definition after_csv :: session where
  "after_csv =
     \<lparr>df = Some \<lparr>fcols = [ascii ''n,1,2''], frows = []\<rparr>, text_content = None,
      uploaded_file = Some ''n,1,2'', input_url = None\<rparr>"

section \<open>Sequencing and traces\<close>

lemma fst_then_run:
  "fst (then_run m k) = fst m @ (case snd m of Inl e \<Rightarrow> [] | Inr x \<Rightarrow> fst (k x))"
  by (cases m) (auto simp: then_run_def split: sum.splits prod.splits)

lemma snd_then_run:
  "snd (then_run m k) = (case snd m of Inl e \<Rightarrow> Inl e | Inr x \<Rightarrow> snd (k x))"
  by (cases m) (auto simp: then_run_def split: sum.splits prod.splits)

lemma agent_calls_append: "agent_calls (xs @ ys) = agent_calls xs @ agent_calls ys"
  by (induction xs rule: agent_calls.induct) simp_all

lemma sections_append: "sections (xs @ ys) = sections xs @ sections ys"
  by (induction xs rule: sections.induct) simp_all

lemma figures_append: "figures (xs @ ys) = figures xs @ figures ys"
  by (induction xs rule: figures.induct) simp_all

lemma type_out_quiet:
  "agent_calls (fst (type_out full chunks)) = [] \<and> sections (fst (type_out full chunks)) = []
   \<and> figures (fst (type_out full chunks)) = []"
proof (induction chunks arbitrary: full)
  case Nil
  show ?case by simp
next
  case (Cons c cs)
  obtain tr fin where t: "type_out (full @ c @ ascii '' '') cs = (tr, fin)"
    by fastforce
  with Cons[of "full @ c @ ascii '' ''"] show ?case
    by (simp add: Let_def)
qed

lemma show_answer_trace:
  "agent_calls (fst (show_answer a)) = []" "sections (fst (show_answer a)) = [sec_answer]"
  "figures (fst (show_answer a)) = []" "snd (show_answer a) = Inr ()"
  using type_out_quiet[of "[]" "split a"]
  by (auto simp: show_answer_def agent_calls_append sections_append figures_append
      split: prod.splits)





lemma display_answer_only:
  "display_result L \<lparr>answer = Some a, table = None, bar = None, line = None\<rparr> = show_answer a"
  by (cases "show_answer a")
    (auto simp: display_result_def then_run_def skip_def show_answer_def
      split: prod.splits sum.splits)

section \<open>The analysis trigger\<close>



text \<open>
  C8. When the agent raises, the handler shows the spinner, calls the agent, and shows
  one error message made of the fixed prefix and the text of the exception; the session
  state after the handler is the state before it.
\<close>

theorem agent_error_is_reported:
  assumes "\<not> source_missing im s" and "query \<noteq> []"
    and "df s = Some f" and "dataframe_agent L f query = Inl e"
  shows "analyze_button L im s query =
           ([St_spinner spinner_msg, Call_agent f query, St_error (err_prefix @ exn_str e)], s)"
  using assms
  by (simp add: analyze_button_def analysis_def then_run_def emit_def lib_call_def)

theorem agent_error_is_reported_witness:
  "\<not> source_missing Upload_file session_with_both \<and> ascii ''total'' \<noteq> [] \<and>
   dataframe_agent failing_agent_libs example_frame (ascii ''total'')
     = Inl (Exception ''RuntimeError'' (ascii ''model unavailable'')) \<and>
   analyze_button failing_agent_libs Upload_file session_with_both (ascii ''total'') =
     ([St_spinner spinner_msg, Call_agent example_frame (ascii ''total''),
       St_error (err_prefix @ ascii ''model unavailable'')], session_with_both)"
proof -
  have h: "\<not> source_missing Upload_file session_with_both" "ascii ''total'' \<noteq> []"
    by (simp_all add: source_missing_def session_with_both_def ascii_def)
  have d: "df session_with_both = Some example_frame"
    by (simp add: session_with_both_def)
  have a: "dataframe_agent failing_agent_libs example_frame (ascii ''total'')
             = Inl (Exception ''RuntimeError'' (ascii ''model unavailable''))"
    by (simp add: failing_agent_libs_def)
  show ?thesis
    using agent_error_is_reported[OF h d a] h a by simp
qed

text \<open>
  C9, as the code has it. The button is never disabled; what is disabled while nothing
  is stored is the query input. Pressing the button with the content source missing, or
  with the source present and the query empty, shows one warning and nothing else, and
  leaves the session state as it was.
\<close>

theorem missing_input_only_warns:
  "\<not> analyze_button_disabled im s query \<and>
   (query_input_disabled s \<longleftrightarrow> df s = None \<and> text_content s = None) \<and>
   (source_missing im s \<longrightarrow> analyze_button L im s query = ([St_warning warn_source], s)) \<and>
   (\<not> source_missing im s \<and> query = [] \<longrightarrow>
      analyze_button L im s query = ([St_warning warn_query], s))"
  by (simp add: analyze_button_disabled_def query_input_disabled_def analyze_button_def)

theorem missing_input_only_warns_witness:
  "source_missing Upload_file initial_session \<and>
   analyze_button example_libs Upload_file initial_session (ascii ''total'')
     = ([St_warning warn_source], initial_session) \<and>
   \<not> source_missing Upload_file session_with_both \<and>
   analyze_button example_libs Upload_file session_with_both []
     = ([St_warning warn_query], session_with_both)"
  using missing_input_only_warns[of Upload_file initial_session "ascii ''total''" example_libs]
    missing_input_only_warns[of Upload_file session_with_both "[]" example_libs]
  by (simp add: source_missing_def initial_session_def session_with_both_def)

theorem button_enabled_without_source_counterexample:
  "source_missing Upload_file initial_session \<and>
   \<not> analyze_button_disabled Upload_file initial_session []"
  by (simp add: source_missing_def initial_session_def analyze_button_disabled_def)

text \<open>
  C1, as the code has it. With no frame stored and a text stored, the analysis is the
  answer made of the label and the first 3000 characters of the text, no agent is
  invoked, and the handler, when the source is present and the query is not empty,
  renders that answer.
\<close>

theorem text_analysis_is_labelled_prefix:
  assumes "df s = None" and "text_content s = Some t"
  shows "analysis L s query =
           ([], Inr \<lparr>answer = Some (text_result_label @ take 3000 t),
                     table = None, bar = None, line = None\<rparr>) \<and>
         (\<not> source_missing im s \<and> query \<noteq> [] \<longrightarrow>
            analyze_button L im s query =
              (St_spinner spinner_msg # fst (show_answer (text_result_label @ take 3000 t)), s))"
proof -
  have a: "analysis L s query =
           ([], Inr \<lparr>answer = Some (text_result_label @ take 3000 t),
                     table = None, bar = None, line = None\<rparr>)"
    using assms by (simp add: analysis_def)
  have "then_run (analysis L s query) (display_result L)
          = show_answer (text_result_label @ take 3000 t)"
    by (simp add: a then_run_def display_answer_only split: prod.splits)
  then show ?thesis
    using a show_answer_trace(4)[of "text_result_label @ take 3000 t"]
    by (cases "show_answer (text_result_label @ take 3000 t)")
      (auto simp: analyze_button_def)
qed

theorem text_analysis_is_labelled_prefix_witness:
  "df session_with_text = None \<and> text_content session_with_text = Some (ascii ''abc'') \<and>
   \<not> source_missing Upload_file session_with_text \<and> ascii ''why'' \<noteq> [] \<and>
   analysis example_libs session_with_text (ascii ''why'') =
     ([], Inr \<lparr>answer = Some (text_result_label @ ascii ''abc''),
               table = None, bar = None, line = None\<rparr>)"
proof -
  have h: "df session_with_text = None" "text_content session_with_text = Some (ascii ''abc'')"
    by (simp_all add: session_with_text_def)
  show ?thesis
    using text_analysis_is_labelled_prefix[OF h, of example_libs "ascii ''why''" Upload_file] h
    by (simp add: source_missing_def session_with_text_def ascii_def)
qed

theorem text_answer_unmodified_counterexample:
  "df session_with_text = None \<and> text_content session_with_text = Some (ascii ''abc'') \<and>
   \<not> source_missing Upload_file session_with_text \<and> ascii ''why'' \<noteq> [] \<and>
   analysis example_libs session_with_text (ascii ''why'') =
     ([], Inr \<lparr>answer = Some (text_result_label @ ascii ''abc''),
               table = None, bar = None, line = None\<rparr>) \<and>
   text_result_label @ ascii ''abc'' \<noteq> take 3000 (ascii ''abc'')"
  by (simp add: analysis_def session_with_text_def source_missing_def ascii_def
      text_result_label_def)

section \<open>Charts and the renderer\<close>




text \<open>
  C5. \<open>create_chart\<close> selects the style named \<open>seaborn-white grid\<close>. With a style library
  that has no style of that name, a result with all four keys, each well formed, gets
  its answer and table sections, then the bar section is opened and the style selection
  raises: no figure is shown and the line section is not rendered. A result with only
  the bar key gets its bar section opened, with no figure in it.
\<close>

theorem style_name_breaks_rendering:
  "present_sections full_result = [sec_answer, sec_table, sec_bar, sec_line] \<and>
   sections (fst (display_result named_style_libs full_result))
     = [sec_answer, sec_table, sec_bar] \<and>
   figures (fst (display_result named_style_libs full_result)) = [] \<and>
   snd (display_result named_style_libs full_result)
     = Inl (Exception ''OSError'' (ascii ''seaborn-white grid'')) \<and>
   display_result named_style_libs bar_only_result
     = ([St_expander sec_bar True], Inl (Exception ''OSError'' (ascii ''seaborn-white grid'')))"
proof -
  have c: "create_chart named_style_libs spec ct
             = ([], Inl (Exception ''OSError'' (ascii ''seaborn-white grid'')))" for spec ct
    by (simp add: create_chart_def then_run_def lib_call_def named_style_libs_def ascii_def)
  have t: "show_table named_style_libs \<lparr>tdata = [[CInt 1], [CInt 2]], tcolumns = [ascii ''n'']\<rparr>
             = ([St_expander sec_table True,
                 St_dataframe Highlight_max
                   \<lparr>fcols = [ascii ''n''], frows = [[CInt 1], [CInt 2]]\<rparr>], Inr ())"
    by (simp add: show_table_def then_run_def emit_def lib_call_def named_style_libs_def
        example_libs_def)
  have b: "display_result named_style_libs bar_only_result
     = ([St_expander sec_bar True], Inl (Exception ''OSError'' (ascii ''seaborn-white grid'')))"
    by (simp add: display_result_def bar_only_result_def show_chart_def then_run_def
        emit_def skip_def c)
  have f: "fst (display_result named_style_libs full_result)
     = fst (show_answer (ascii ''two rows'')) @
       [St_expander sec_table True,
        St_dataframe Highlight_max \<lparr>fcols = [ascii ''n''], frows = [[CInt 1], [CInt 2]]\<rparr>,
        St_expander sec_bar True]"
    by (simp add: display_result_def full_result_def fst_then_run snd_then_run
        show_answer_trace t show_chart_def emit_def c)
  have s: "snd (display_result named_style_libs full_result)
     = Inl (Exception ''OSError'' (ascii ''seaborn-white grid''))"
    by (simp add: display_result_def full_result_def snd_then_run
        show_answer_trace t show_chart_def emit_def c)
  show ?thesis
    by (simp add: f s b sections_append figures_append show_answer_trace)
      (simp add: present_sections_def full_result_def)
qed

section \<open>The fetcher\<close>


lemma classify_outcome:
  "snd (classify L resp) =
     (if substring_in (ascii ''text/html'') (get_default (content_type resp) []) then
        (case BeautifulSoup L (resp_text resp) of
           Inl e \<Rightarrow> Inl e
         | Inr soup \<Rightarrow>
             (case comprehension (extract_table L) (enumerate 0 (find_all L [ascii ''table''] soup)) of
                Inl e \<Rightarrow> Inl e
              | Inr tables \<Rightarrow> Inr (Html tables (get_text L True (strip_scripts L soup)))))
      else if substring_in (ascii ''application/pdf'') (get_default (content_type resp) []) then
        (case pdf_pages_text L (content resp) of
           Inl e \<Rightarrow> Inl e
         | Inr pages \<Rightarrow> Inr (Pdf (concat pages)))
      else Inr (Unknown (resp_text resp)))"
  by (simp add: classify_def snd_then_run lib_call_def Let_def split: sum.splits)

lemma classify_success: "snd (classify L resp) = Inr r \<Longrightarrow> status r = ascii ''success''"
  by (auto simp: classify_outcome split: if_splits sum.splits)


lemma fetch_body_outcome:
  "snd (fetch_body L addr) =
     (case urlparse_scheme L addr of
        Inl e \<Rightarrow> Inl e
      | Inr sch \<Rightarrow>
          (case requests_get L (if sch = [] then ascii ''https://'' @ addr else addr) of
             Inl e \<Rightarrow> Inl e
           | Inr resp \<Rightarrow>
               (case raise_for_status L resp of
                  Inl e \<Rightarrow> Inl e
                | Inr u \<Rightarrow> snd (classify L resp))))"
  by (simp add: fetch_body_def snd_then_run lib_call_def emit_def Let_def split: sum.splits)


lemma fetch_outcome:
  "snd (fetch_url_content L addr) =
     (case snd (fetch_body L addr) of Inl e \<Rightarrow> Inr (Failure (exn_str e)) | Inr r \<Rightarrow> Inr r)"
  by (cases "fetch_body L addr") (auto simp: fetch_url_content_def split: sum.splits)

lemma fetch_body_success: "snd (fetch_body L addr) = Inr r \<Longrightarrow> status r = ascii ''success''"
  by (auto simp: fetch_body_outcome classify_success split: sum.splits)


lemma scheme_of_example: "scheme_of (ascii ''example.com/data'') = []"
  by code_simp






text \<open>
  C2. \<open>fetch_url_content\<close> always returns. Whatever the body of its \<open>try\<close> raises
  becomes the failure result with the text of the exception as its message: so for an
  exception of the parser of the address, of the request, of the status check, of the
  markup parser, of the extraction of a table and of the PDF reader. A result the body
  returned is returned as it is and is tagged success; a result is tagged error exactly
  when it is a failure result.
\<close>

theorem fetch_never_raises:
  "(\<exists>r. snd (fetch_url_content L addr) = Inr r \<and>
         (status r = ascii ''success'' \<or> status r = ascii ''error'') \<and>
         (status r = ascii ''error'' \<longleftrightarrow> (\<exists>m. r = Failure m \<and> message r = Some m))) \<and>
   (\<forall>e. snd (fetch_body L addr) = Inl e \<longrightarrow>
         snd (fetch_url_content L addr) = Inr (Failure (exn_str e))) \<and>
   (\<forall>r. snd (fetch_body L addr) = Inr r \<longrightarrow>
         snd (fetch_url_content L addr) = Inr r \<and> status r = ascii ''success'') \<and>
   (\<forall>e. urlparse_scheme L addr = Inl e \<longrightarrow> snd (fetch_body L addr) = Inl e) \<and>
   (\<forall>sch e. urlparse_scheme L addr = Inr sch \<and>
       requests_get L (if sch = [] then ascii ''https://'' @ addr else addr) = Inl e \<longrightarrow>
         snd (fetch_body L addr) = Inl e) \<and>
   (\<forall>sch resp e. urlparse_scheme L addr = Inr sch \<and>
       requests_get L (if sch = [] then ascii ''https://'' @ addr else addr) = Inr resp \<and>
       raise_for_status L resp = Inl e \<longrightarrow>
         snd (fetch_body L addr) = Inl e) \<and>
   (\<forall>sch resp e. urlparse_scheme L addr = Inr sch \<and>
       requests_get L (if sch = [] then ascii ''https://'' @ addr else addr) = Inr resp \<and>
       raise_for_status L resp = Inr () \<and>
       substring_in (ascii ''text/html'') (get_default (content_type resp) []) \<and>
       BeautifulSoup L (resp_text resp) = Inl e \<longrightarrow>
         snd (fetch_body L addr) = Inl e) \<and>
   (\<forall>sch resp soup e. urlparse_scheme L addr = Inr sch \<and>
       requests_get L (if sch = [] then ascii ''https://'' @ addr else addr) = Inr resp \<and>
       raise_for_status L resp = Inr () \<and>
       substring_in (ascii ''text/html'') (get_default (content_type resp) []) \<and>
       BeautifulSoup L (resp_text resp) = Inr soup \<and>
       comprehension (extract_table L) (enumerate 0 (find_all L [ascii ''table''] soup)) = Inl e \<longrightarrow>
         snd (fetch_body L addr) = Inl e) \<and>
   (\<forall>sch resp e. urlparse_scheme L addr = Inr sch \<and>
       requests_get L (if sch = [] then ascii ''https://'' @ addr else addr) = Inr resp \<and>
       raise_for_status L resp = Inr () \<and>
       \<not> substring_in (ascii ''text/html'') (get_default (content_type resp) []) \<and>
       substring_in (ascii ''application/pdf'') (get_default (content_type resp) []) \<and>
       pdf_pages_text L (content resp) = Inl e \<longrightarrow>
         snd (fetch_body L addr) = Inl e)"
proof (intro conjI)
  show "\<exists>r. snd (fetch_url_content L addr) = Inr r \<and>
         (status r = ascii ''success'' \<or> status r = ascii ''error'') \<and>
         (status r = ascii ''error'' \<longleftrightarrow> (\<exists>m. r = Failure m \<and> message r = Some m))"
  proof (cases "snd (fetch_body L addr)")
    case (Inl e)
    then show ?thesis by (simp add: fetch_outcome)
  next
    case (Inr r)
    then have "status r = ascii ''success''" by (rule fetch_body_success)
    moreover have "ascii ''success'' \<noteq> ascii ''error''" by (simp add: ascii_def)
    ultimately show ?thesis using Inr by (cases r) (auto simp: fetch_outcome)
  qed
next
  show "\<forall>e. snd (fetch_body L addr) = Inl e \<longrightarrow>
         snd (fetch_url_content L addr) = Inr (Failure (exn_str e))"
    by (simp add: fetch_outcome)
next
  show "\<forall>r. snd (fetch_body L addr) = Inr r \<longrightarrow>
         snd (fetch_url_content L addr) = Inr r \<and> status r = ascii ''success''"
    by (simp add: fetch_outcome fetch_body_success)
qed (simp_all add: fetch_body_outcome classify_outcome)

theorem fetch_never_raises_witness:
  "requests_get offline_libs (ascii ''https://example.com/data'')
     = Inl (Exception ''ConnectionError'' (ascii ''host unreachable'')) \<and>
   snd (fetch_url_content offline_libs (ascii ''example.com/data''))
     = Inr (Failure (ascii ''host unreachable'')) \<and>
   status (Failure (ascii ''host unreachable'')) = ascii ''error'' \<and>
   snd (fetch_url_content not_found_libs (ascii ''example.com/data''))
     = Inr (Failure (ascii ''404''))"
proof -
  let ?e = "Exception ''ConnectionError'' (ascii ''host unreachable'')"
  let ?r = "\<lparr>status_code = 404, content_type = Some (ascii ''text/html''),
             resp_text = [], content = []\<rparr>"
  note T = fetch_never_raises[of offline_libs "ascii ''example.com/data''"]
  note caught = T[THEN conjunct2, THEN conjunct1, rule_format]
  note network = T[THEN conjunct2, THEN conjunct2, THEN conjunct2, THEN conjunct2,
      THEN conjunct1, rule_format]
  note U = fetch_never_raises[of not_found_libs "ascii ''example.com/data''"]
  note caught' = U[THEN conjunct2, THEN conjunct1, rule_format]
  note refused = U[THEN conjunct2, THEN conjunct2, THEN conjunct2, THEN conjunct2,
      THEN conjunct2, THEN conjunct1, rule_format]
  have a: "urlparse_scheme offline_libs (ascii ''example.com/data'') = Inr []"
    by (simp add: offline_libs_def example_libs_def scheme_of_example)
  have b: "requests_get offline_libs
             (if ([]::pystr) = [] then ascii ''https://'' @ ascii ''example.com/data''
              else ascii ''example.com/data'') = Inl ?e"
    by (simp add: offline_libs_def)
  have c: "requests_get offline_libs (ascii ''https://example.com/data'') = Inl ?e"
    by (simp add: offline_libs_def)
  have "snd (fetch_body offline_libs (ascii ''example.com/data'')) = Inl ?e"
    by (rule network[OF conjI[OF a b]])
  then have 1: "snd (fetch_url_content offline_libs (ascii ''example.com/data''))
               = Inr (Failure (exn_str ?e))"
    by (rule caught)
  have a': "urlparse_scheme not_found_libs (ascii ''example.com/data'') = Inr []"
    by (simp add: not_found_libs_def example_libs_def scheme_of_example)
  have b': "requests_get not_found_libs
             (if ([]::pystr) = [] then ascii ''https://'' @ ascii ''example.com/data''
              else ascii ''example.com/data'') = Inr ?r"
    by (simp add: not_found_libs_def)
  have c': "raise_for_status not_found_libs ?r = Inl (Exception ''HTTPError'' (ascii ''404''))"
    by (simp add: not_found_libs_def example_libs_def ascii_def)
  have "snd (fetch_body not_found_libs (ascii ''example.com/data''))
          = Inl (Exception ''HTTPError'' (ascii ''404''))"
    by (rule refused[OF conjI[OF a' conjI[OF b' c']]])
  then have 2: "snd (fetch_url_content not_found_libs (ascii ''example.com/data''))
               = Inr (Failure (exn_str (Exception ''HTTPError'' (ascii ''404''))))"
    by (rule caught')
  from 1 2 show ?thesis
    using c by simp
qed

lemma comprehension_map: "comprehension f xs = Inr ys \<longleftrightarrow> map f xs = map Inr ys"
proof (induction xs arbitrary: ys)
  case Nil
  show ?case by auto
next
  case (Cons x xs)
  show ?case
  proof (cases "f x")
    case (Inl e)
    then show ?thesis by (cases ys) auto
  next
    case (Inr y)
    show ?thesis
    proof (cases "comprehension f xs")
      case (Inl e)
      with Cons[of "tl ys"] Inr show ?thesis by (cases ys) auto
    next
      case r: (Inr zs)
      with Cons[of zs] Cons[of "tl ys"] Inr show ?thesis by (cases ys) auto
    qed
  qed
qed

lemma comprehension_fails:
  "x \<in> set xs \<Longrightarrow> isl (f x) \<Longrightarrow> isl (comprehension f xs)"
  by (induction xs) (auto split: sum.splits)

lemma extract_table_ok:
  "pd_read_html L (node_str L t) = Inr (f # rest) \<Longrightarrow>
   extract_table L (i, t) =
     Inr \<lparr>table_id = ascii ''table_'' @ str_nat i, tb_data = to_dict_records L f,
          tb_columns = fcols f\<rparr>"
  by (simp add: extract_table_def first_def)

lemma extract_table_fails:
  "\<forall>f rest. pd_read_html L (node_str L t) \<noteq> Inr (f # rest) \<Longrightarrow> isl (extract_table L (i, t))"
  by (cases "pd_read_html L (node_str L t)")
    (auto simp: extract_table_def first_def split: list.splits)

lemma comprehension_first_failure:
  "i < length xs \<Longrightarrow> \<forall>j<i. \<exists>y. f (xs ! j) = Inr y \<Longrightarrow> f (xs ! i) = Inl e \<Longrightarrow>
   comprehension f xs = Inl e"
proof (induction xs arbitrary: i)
  case Nil
  then show ?case by simp
next
  case (Cons x xs)
  show ?case
  proof (cases i)
    case 0
    with Cons.prems show ?thesis by simp
  next
    case (Suc k)
    from Cons.prems(2) Suc have "\<exists>y. f ((x # xs) ! 0) = Inr y"
      by blast
    then obtain y where y: "f x = Inr y"
      by auto
    have "\<forall>j<k. \<exists>y. f (xs ! j) = Inr y"
    proof (intro allI impI)
      fix j assume "j < k"
      then have "Suc j < i" using Suc by simp
      with Cons.prems(2) have "\<exists>y. f ((x # xs) ! Suc j) = Inr y"
        by blast
      then show "\<exists>y. f (xs ! j) = Inr y" by simp
    qed
    moreover have "k < length xs" "f (xs ! k) = Inl e"
      using Cons.prems Suc by simp_all
    ultimately have "comprehension f xs = Inl e"
      using Cons.IH[of k] by blast
    with y show ?thesis by simp
  qed
qed

lemma extract_table_raises:
  "pd_read_html L (node_str L t) = Inl e \<Longrightarrow> extract_table L (i, t) = Inl e"
  by (simp add: extract_table_def)

lemma extract_table_no_frame:
  "pd_read_html L (node_str L t) = Inr [] \<Longrightarrow> extract_table L (i, t) = Inl index_error"
  by (simp add: extract_table_def first_def)

lemma enumerate_first_failure:
  assumes i: "i < length ts"
    and before: "\<forall>j<i. \<exists>y. f (j, ts ! j) = Inr y"
    and at: "f (i, ts ! i) = Inl e"
  shows "comprehension f (enumerate 0 ts) = Inl e"
proof (rule comprehension_first_failure)
  show "i < length (enumerate 0 ts)"
    using i by simp
next
  show "\<forall>j<i. \<exists>y. f (enumerate 0 ts ! j) = Inr y"
  proof (intro allI impI)
    fix j assume j: "j < i"
    then have "j < length ts" using i by (rule less_trans)
    then have "enumerate 0 ts ! j = (j, ts ! j)"
      by (simp add: nth_enumerate_eq)
    moreover have "\<exists>y. f (j, ts ! j) = Inr y"
      by (rule before[rule_format, OF j])
    ultimately show "\<exists>y. f (enumerate 0 ts ! j) = Inr y"
      by (simp only:)
  qed
next
  have "enumerate 0 ts ! i = (i, ts ! i)"
    using i by (simp add: nth_enumerate_eq)
  with at show "f (enumerate 0 ts ! i) = Inl e"
    by (simp only:)
qed

lemma tables_before_extracted:
  assumes before: "\<forall>j<i. \<exists>f rest. pd_read_html L (node_str L (ts ! j)) = Inr (f # rest)"
  shows "\<forall>j<i. \<exists>y. extract_table L (j, ts ! j) = Inr y"
proof (intro allI impI)
  fix j assume j: "j < i"
  from before[rule_format, OF j] obtain f rest
    where "pd_read_html L (node_str L (ts ! j)) = Inr (f # rest)"
    by (elim exE)
  from extract_table_ok[OF this, of j] show "\<exists>y. extract_table L (j, ts ! j) = Inr y"
    by (rule exI)
qed

text \<open>
  C3, as the code has it. For a response declared as markup and parsed into \<open>soup\<close>,
  with \<open>ts\<close> the table elements found in it: when pandas reads every table, and
  \<open>frames\<close> are the first frames it returns, the result is the markup result with one
  entry per table, in the order of \<open>ts\<close>, the entry at position \<open>i\<close> tagged \<open>table_i\<close>,
  together with the text of the page after its script and style elements are
  decomposed. When pandas fails on one of the tables, the result is a failure result,
  and its message is the error of the first table that fails: the text of the exception
  pandas raised on it, or that of the index error when pandas returned no frame for it.
\<close>

theorem markup_tables_and_text:
  assumes "urlparse_scheme L addr = Inr sch"
    and "requests_get L (if sch = [] then ascii ''https://'' @ addr else addr) = Inr resp"
    and "raise_for_status L resp = Inr ()"
    and "substring_in (ascii ''text/html'') (get_default (content_type resp) [])"
    and "BeautifulSoup L (resp_text resp) = Inr soup"
    and "find_all L [ascii ''table''] soup = ts"
  shows "(\<forall>frames. length frames = length ts \<and>
            (\<forall>i<length ts. \<exists>rest. pd_read_html L (node_str L (ts ! i)) = Inr (frames ! i # rest)) \<longrightarrow>
            snd (fetch_url_content L addr) =
              Inr (Html
                (map (\<lambda>(i, f). \<lparr>table_id = ascii ''table_'' @ str_nat i,
                                 tb_data = to_dict_records L f, tb_columns = fcols f\<rparr>)
                   (enumerate 0 frames))
                (get_text L True (strip_scripts L soup))) \<and>
            length (map (\<lambda>(i, f). \<lparr>table_id = ascii ''table_'' @ str_nat i,
                                 tb_data = to_dict_records L f, tb_columns = fcols f\<rparr>)
                   (enumerate 0 frames)) = length ts)
       \<and> ((\<exists>t\<in>set ts. \<forall>f rest. pd_read_html L (node_str L t) \<noteq> Inr (f # rest)) \<longrightarrow>
            (\<exists>m. snd (fetch_url_content L addr) = Inr (Failure m)))
       \<and> (\<forall>i e. i < length ts \<and>
            (\<forall>j<i. \<exists>f rest. pd_read_html L (node_str L (ts ! j)) = Inr (f # rest)) \<and>
            pd_read_html L (node_str L (ts ! i)) = Inl e \<longrightarrow>
            snd (fetch_url_content L addr) = Inr (Failure (exn_str e)))
       \<and> (\<forall>i. i < length ts \<and>
            (\<forall>j<i. \<exists>f rest. pd_read_html L (node_str L (ts ! j)) = Inr (f # rest)) \<and>
            pd_read_html L (node_str L (ts ! i)) = Inr [] \<longrightarrow>
            snd (fetch_url_content L addr) = Inr (Failure (exn_str index_error)))"
proof -
  let ?entry = "\<lambda>(i, f). \<lparr>table_id = ascii ''table_'' @ str_nat i,
                          tb_data = to_dict_records L f, tb_columns = fcols f\<rparr>"
  have body: "snd (fetch_body L addr) =
      (case comprehension (extract_table L) (enumerate 0 ts) of
         Inl e \<Rightarrow> Inl e
       | Inr tables \<Rightarrow> Inr (Html tables (get_text L True (strip_scripts L soup))))"
    using assms by (simp add: fetch_body_outcome classify_outcome)
  have ok: "snd (fetch_url_content L addr) =
              Inr (Html (map ?entry (enumerate 0 frames)) (get_text L True (strip_scripts L soup)))"
    if len: "length frames = length ts"
      and rd: "\<forall>i<length ts. \<exists>rest. pd_read_html L (node_str L (ts ! i)) = Inr (frames ! i # rest)"
    for frames
  proof -
    have "map (extract_table L) (enumerate 0 ts) = map Inr (map ?entry (enumerate 0 frames))"
    proof (rule nth_equalityI)
      show "length (map (extract_table L) (enumerate 0 ts))
              = length (map Inr (map ?entry (enumerate 0 frames)))"
        using len by simp
    next
      fix i assume "i < length (map (extract_table L) (enumerate 0 ts))"
      then have i: "i < length ts" by simp
      with rd obtain rest where "pd_read_html L (node_str L (ts ! i)) = Inr (frames ! i # rest)"
        by blast
      then have "extract_table L (i, ts ! i) = Inr (?entry (i, frames ! i))"
        by (simp add: extract_table_ok)
      with i len show "map (extract_table L) (enumerate 0 ts) ! i
                = map Inr (map ?entry (enumerate 0 frames)) ! i"
        by (simp add: nth_enumerate_eq)
    qed
    then have "comprehension (extract_table L) (enumerate 0 ts)
                 = Inr (map ?entry (enumerate 0 frames))"
      by (simp add: comprehension_map)
    then show ?thesis
      by (simp add: fetch_outcome body)
  qed
  have bad: "\<exists>m. snd (fetch_url_content L addr) = Inr (Failure m)"
    if "\<exists>t\<in>set ts. \<forall>f rest. pd_read_html L (node_str L t) \<noteq> Inr (f # rest)"
  proof -
    from that obtain t where t: "t \<in> set ts"
      and no: "\<forall>f rest. pd_read_html L (node_str L t) \<noteq> Inr (f # rest)"
      by blast
    from t obtain i where i: "i < length ts" "ts ! i = t"
      by (auto simp: in_set_conv_nth)
    then have "(i, t) \<in> set (enumerate 0 ts)"
      by (auto simp: in_set_enumerate_eq)
    moreover have "isl (extract_table L (i, t))"
      using no by (rule extract_table_fails)
    ultimately have "isl (comprehension (extract_table L) (enumerate 0 ts))"
      by (rule comprehension_fails)
    then show ?thesis
      by (auto simp: fetch_outcome body isl_def)
  qed
  have first: "snd (fetch_url_content L addr) = Inr (Failure (exn_str e))"
    if i: "i < length ts"
      and before: "\<forall>j<i. \<exists>f rest. pd_read_html L (node_str L (ts ! j)) = Inr (f # rest)"
      and at: "extract_table L (i, ts ! i) = Inl e"
    for i e
  proof -
    have "comprehension (extract_table L) (enumerate 0 ts) = Inl e"
      by (rule enumerate_first_failure[OF i tables_before_extracted[OF before] at])
    then show ?thesis
      by (simp add: fetch_outcome body)
  qed
  have A: "\<forall>frames. length frames = length ts \<and>
            (\<forall>i<length ts. \<exists>rest. pd_read_html L (node_str L (ts ! i)) = Inr (frames ! i # rest)) \<longrightarrow>
            snd (fetch_url_content L addr) =
              Inr (Html (map ?entry (enumerate 0 frames)) (get_text L True (strip_scripts L soup))) \<and>
            length (map ?entry (enumerate 0 frames)) = length ts"
    using ok by simp
  have B: "(\<exists>t\<in>set ts. \<forall>f rest. pd_read_html L (node_str L t) \<noteq> Inr (f # rest)) \<longrightarrow>
            (\<exists>m. snd (fetch_url_content L addr) = Inr (Failure m))"
    using bad by (rule impI)
  have C: "\<forall>i e. i < length ts \<and>
            (\<forall>j<i. \<exists>f rest. pd_read_html L (node_str L (ts ! j)) = Inr (f # rest)) \<and>
            pd_read_html L (node_str L (ts ! i)) = Inl e \<longrightarrow>
            snd (fetch_url_content L addr) = Inr (Failure (exn_str e))"
  proof (intro allI impI, elim conjE)
    fix i e
    assume 1: "i < length ts"
      and 2: "\<forall>j<i. \<exists>f rest. pd_read_html L (node_str L (ts ! j)) = Inr (f # rest)"
      and 3: "pd_read_html L (node_str L (ts ! i)) = Inl e"
    show "snd (fetch_url_content L addr) = Inr (Failure (exn_str e))"
      by (rule first[OF 1 2 extract_table_raises[OF 3]])
  qed
  have D: "\<forall>i. i < length ts \<and>
            (\<forall>j<i. \<exists>f rest. pd_read_html L (node_str L (ts ! j)) = Inr (f # rest)) \<and>
            pd_read_html L (node_str L (ts ! i)) = Inr [] \<longrightarrow>
            snd (fetch_url_content L addr) = Inr (Failure (exn_str index_error))"
  proof (intro allI impI, elim conjE)
    fix i
    assume 1: "i < length ts"
      and 2: "\<forall>j<i. \<exists>f rest. pd_read_html L (node_str L (ts ! j)) = Inr (f # rest)"
      and 3: "pd_read_html L (node_str L (ts ! i)) = Inr []"
    show "snd (fetch_url_content L addr) = Inr (Failure (exn_str index_error))"
      by (rule first[OF 1 2 extract_table_no_frame[OF 3]])
  qed
  show ?thesis
    by (rule conjI[OF A conjI[OF B conjI[OF C D]]])
qed

lemma example_tables:
  "find_all example_libs [ascii ''table''] example_page =
     [Elem (ascii ''table'') [Elem (ascii ''tr'') [Elem (ascii ''td'') [Text (ascii ''a'')]]],
      Elem (ascii ''table'') [Elem (ascii ''tr'') [Elem (ascii ''td'') [Text (ascii ''b'')]]]]"
  by (simp add: example_libs_def example_page_def ascii_def)

lemma example_page_text:
  "get_text example_libs True (strip_scripts example_libs example_page) = ascii ''Pricesab''"
  by (simp add: example_libs_def strip_scripts_def example_page_def ascii_def strip_def
      is_space_def)

lemma example_read_html:
  "pd_read_html example_libs (node_str example_libs
       (Elem (ascii ''table'') [Elem (ascii ''tr'') [Elem (ascii ''td'') [Text t]]]))
     = Inr [\<lparr>fcols = [ascii ''<table><tr><td>'' @ t @ ascii ''</td></tr></table>''],
             frows = []\<rparr>]"
  by (simp add: example_libs_def ascii_def)

theorem markup_tables_and_text_witness:
  "snd (fetch_url_content example_libs (ascii ''example.com/data'')) =
     Inr (Html
       [\<lparr>table_id = ascii ''table_0'', tb_data = [],
         tb_columns = [ascii ''<table><tr><td>a</td></tr></table>'']\<rparr>,
        \<lparr>table_id = ascii ''table_1'', tb_data = [],
         tb_columns = [ascii ''<table><tr><td>b</td></tr></table>'']\<rparr>]
       (ascii ''Pricesab'')) \<and>
   find_all half_empty_libs [ascii ''table''] half_empty_page =
     [Elem (ascii ''table'') [Elem (ascii ''tr'') [Elem (ascii ''td'') [Text (ascii ''a'')]]],
      Elem (ascii ''table'') []] \<and>
   snd (fetch_url_content half_empty_libs (ascii ''example.com/data''))
     = Inr (Failure (ascii ''No tables found''))"
proof -
  let ?e = "Exception ''ValueError'' (ascii ''No tables found'')"
  let ?te = "Elem (ascii ''table'') []"
  let ?resp = "\<lparr>status_code = 200, content_type = Some (ascii ''text/html; charset=utf-8''),
                resp_text = ascii ''https://'' @ ascii ''example.com/data'', content = []\<rparr>"
  let ?ta = "Elem (ascii ''table'') [Elem (ascii ''tr'') [Elem (ascii ''td'') [Text (ascii ''a'')]]]"
  let ?tb = "Elem (ascii ''table'') [Elem (ascii ''tr'') [Elem (ascii ''td'') [Text (ascii ''b'')]]]"
  let ?fa = "\<lparr>fcols = [ascii ''<table><tr><td>'' @ ascii ''a'' @ ascii ''</td></tr></table>''],
              frows = []\<rparr>"
  let ?fb = "\<lparr>fcols = [ascii ''<table><tr><td>'' @ ascii ''b'' @ ascii ''</td></tr></table>''],
              frows = []\<rparr>"
  have 1: "urlparse_scheme example_libs (ascii ''example.com/data'') = Inr []"
    by (simp add: example_libs_def scheme_of_example)
  have 2: "requests_get example_libs
             (if ([]::pystr) = [] then ascii ''https://'' @ ascii ''example.com/data''
              else ascii ''example.com/data'') = Inr ?resp"
    by (simp add: example_libs_def)
  have 3: "raise_for_status example_libs ?resp = Inr ()"
    by (simp add: example_libs_def)
  have 4: "substring_in (ascii ''text/html'') (get_default (content_type ?resp) [])"
    by (simp add: get_default_def ascii_def)
  have 5: "BeautifulSoup example_libs (resp_text ?resp) = Inr example_page"
    by (simp add: example_libs_def)
  have 6: "length [?fa, ?fb] = length [?ta, ?tb] \<and>
           (\<forall>i<length [?ta, ?tb]. \<exists>rest.
              pd_read_html example_libs (node_str example_libs ([?ta, ?tb] ! i))
                = Inr ([?fa, ?fb] ! i # rest))"
    by (auto simp: less_Suc_eq example_read_html)
  have "snd (fetch_url_content example_libs (ascii ''example.com/data'')) =
          Inr (Html
            (map (\<lambda>(i, f). \<lparr>table_id = ascii ''table_'' @ str_nat i,
                             tb_data = to_dict_records example_libs f, tb_columns = fcols f\<rparr>)
               (enumerate 0 [?fa, ?fb]))
            (get_text example_libs True (strip_scripts example_libs example_page)))"
    using markup_tables_and_text[OF 1 2 3 4 5 example_tables, THEN conjunct1, rule_format, OF 6]
    by (rule conjunct1)
  then have good: "snd (fetch_url_content example_libs (ascii ''example.com/data'')) =
     Inr (Html
       [\<lparr>table_id = ascii ''table_0'', tb_data = [],
         tb_columns = [ascii ''<table><tr><td>a</td></tr></table>'']\<rparr>,
        \<lparr>table_id = ascii ''table_1'', tb_data = [],
         tb_columns = [ascii ''<table><tr><td>b</td></tr></table>'']\<rparr>]
       (ascii ''Pricesab''))"
    by (simp add: example_page_text) (simp add: example_libs_def ascii_def)
  have h1: "urlparse_scheme half_empty_libs (ascii ''example.com/data'') = Inr []"
    by (simp add: half_empty_libs_def example_libs_def scheme_of_example)
  have h2: "requests_get half_empty_libs
             (if ([]::pystr) = [] then ascii ''https://'' @ ascii ''example.com/data''
              else ascii ''example.com/data'') = Inr ?resp"
    by (simp add: half_empty_libs_def example_libs_def)
  have h3: "raise_for_status half_empty_libs ?resp = Inr ()"
    by (simp add: half_empty_libs_def example_libs_def)
  have h5: "BeautifulSoup half_empty_libs (resp_text ?resp) = Inr half_empty_page"
    by (simp add: half_empty_libs_def)
  have h6: "find_all half_empty_libs [ascii ''table''] half_empty_page = [?ta, ?te]"
    by (simp add: half_empty_libs_def example_libs_def half_empty_page_def ascii_def)
  have r0: "pd_read_html half_empty_libs (node_str half_empty_libs ?ta) = Inr [?fa]"
    by (simp add: half_empty_libs_def example_libs_def ascii_def)
  have r1: "pd_read_html half_empty_libs (node_str half_empty_libs ?te) = Inl ?e"
    by (simp add: half_empty_libs_def example_libs_def ascii_def)
  have h7: "Suc 0 < length [?ta, ?te] \<and>
            (\<forall>j<Suc 0. \<exists>f rest.
               pd_read_html half_empty_libs (node_str half_empty_libs ([?ta, ?te] ! j))
                 = Inr (f # rest)) \<and>
            pd_read_html half_empty_libs (node_str half_empty_libs ([?ta, ?te] ! Suc 0)) = Inl ?e"
    using r0 r1 by simp
  have "snd (fetch_url_content half_empty_libs (ascii ''example.com/data''))
          = Inr (Failure (exn_str ?e))"
    by (rule markup_tables_and_text[OF h1 h2 h3 4 h5 h6, THEN conjunct2, THEN conjunct2,
          THEN conjunct1, rule_format, OF h7])
  then have bad: "snd (fetch_url_content half_empty_libs (ascii ''example.com/data''))
          = Inr (Failure (ascii ''No tables found''))"
    by simp
  from good h6 bad show ?thesis
    by (intro conjI)
qed


theorem empty_table_fails_counterexample:
  "substring_in (ascii ''text/html'') (ascii ''text/html; charset=utf-8'') \<and>
   find_all empty_table_libs [ascii ''table''] empty_table_page = [Elem (ascii ''table'') []] \<and>
   snd (fetch_url_content empty_table_libs (ascii ''example.com/data''))
     = Inr (Failure (ascii ''No tables found''))"
proof -
  let ?e = "Exception ''ValueError'' (ascii ''No tables found'')"
  have 0: "substring_in (ascii ''text/html'') (ascii ''text/html; charset=utf-8'')"
    by (simp add: ascii_def)
  have 1: "urlparse_scheme empty_table_libs (ascii ''example.com/data'') = Inr []"
    by (simp add: empty_table_libs_def example_libs_def scheme_of_example)
  have 2: "find_all empty_table_libs [ascii ''table''] empty_table_page
             = [Elem (ascii ''table'') []]"
    by (simp add: empty_table_libs_def example_libs_def empty_table_page_def ascii_def)
  have 3: "extract_table empty_table_libs (0, Elem (ascii ''table'') []) = Inl ?e"
    by (simp add: extract_table_def empty_table_libs_def example_libs_def ascii_def)
  have 4: "comprehension (extract_table empty_table_libs)
             (enumerate 0 (find_all empty_table_libs [ascii ''table''] empty_table_page)) = Inl ?e"
    by (simp add: 2 3)
  have 5: "BeautifulSoup empty_table_libs t = Inr empty_table_page" for t
    by (simp add: empty_table_libs_def)
  have 6: "requests_get empty_table_libs url =
             Inr \<lparr>status_code = 200, content_type = Some (ascii ''text/html; charset=utf-8''),
                  resp_text = url, content = []\<rparr>" for url
    by (simp add: empty_table_libs_def example_libs_def)
  have 7: "raise_for_status empty_table_libs
             \<lparr>status_code = 200, content_type = c, resp_text = url, content = []\<rparr> = Inr ()"
    for c url
    by (simp add: empty_table_libs_def example_libs_def)
  have "snd (classify empty_table_libs
          \<lparr>status_code = 200, content_type = Some (ascii ''text/html; charset=utf-8''),
           resp_text = url, content = []\<rparr>) = Inl ?e" for url
    by (simp add: classify_outcome get_default_def 0 5 4)
  then have "snd (fetch_body empty_table_libs (ascii ''example.com/data'')) = Inl ?e"
    by (simp add: fetch_body_outcome 1 6 7)
  then show ?thesis
    using 0 2 by (simp add: fetch_outcome)
qed

section \<open>Ingestion and the session state\<close>

lemma analyze_button_state: "snd (analyze_button L im s query) = s"
  by (simp add: analyze_button_def split: prod.splits sum.splits)

lemma analyze_button_state_eq: "analyze_button L im s query = (tr, s') \<Longrightarrow> s' = s"
  using analyze_button_state[of L im s query] by simp

lemma after_state: "snd (after pre r) = snd r"
  by (simp add: after_def split: prod.splits)

lemma store_text_state:
  "snd (store_text label r s) = s \<or> (\<exists>t. snd (store_text label r s) = s\<lparr>text_content := Some t\<rparr>)"
proof (cases r)
  case (Inl e)
  then show ?thesis by (simp add: store_text_def)
next
  case (Inr t)
  then have "snd (store_text label r s) = s\<lparr>text_content := Some t\<rparr>"
    by (simp add: store_text_def)
  then show ?thesis by blast
qed

lemma store_frame_state:
  "snd (store_frame cmap n r s) = s \<or> (\<exists>f. snd (store_frame cmap n r s) = s\<lparr>df := Some f\<rparr>)"
proof (cases r)
  case (Inl e)
  then show ?thesis by (simp add: store_frame_def)
next
  case (Inr f)
  then have "snd (store_frame cmap n r s) = s\<lparr>df := Some f\<rparr>"
    by (simp add: store_frame_def)
  then show ?thesis by blast
qed

lemma upload_preview_state:
  "snd (upload_preview L ft sheet file s) = s \<or>
   (\<exists>t. snd (upload_preview L ft sheet file s) = s\<lparr>text_content := Some t\<rparr>) \<or>
   (\<exists>f. snd (upload_preview L ft sheet file s) = s\<lparr>df := Some f\<rparr>)"
proof (cases ft)
  case Excel
  then show ?thesis
    using store_frame_state[of "ascii ''Blues''" 2000 _ s]
    by (auto simp: upload_preview_def after_state split: sum.splits if_splits)
next
  case CSV
  then show ?thesis
    using store_frame_state[of "ascii ''Blues''" 2000 "pd_read_csv L file" s]
    by (auto simp: upload_preview_def after_state)
next
  case Word
  then show ?thesis
    using store_text_state[of lbl_doc "process_word_file L file" s]
    by (auto simp: upload_preview_def after_state)
next
  case HTML
  then show ?thesis
    using store_text_state[of lbl_html "process_html_file L file" s]
    by (auto simp: upload_preview_def after_state)
next
  case PDF
  then show ?thesis
    using store_text_state[of lbl_pdf "process_pdf_file L file" s]
    by (auto simp: upload_preview_def after_state)
qed

lemma url_preview_state:
  "snd (url_preview L url s) = s \<or>
   (\<exists>t. snd (url_preview L url s) = s\<lparr>text_content := Some t\<rparr>) \<or>
   (\<exists>f. snd (url_preview L url s) = s\<lparr>df := Some f\<rparr>)"
proof (cases "fetch_url_content L url")
  case (Pair tr out)
  show ?thesis
  proof (cases out)
    case (Inl e)
    with Pair show ?thesis by (simp add: url_preview_def)
  next
    case (Inr fetched)
    show ?thesis
    proof (cases fetched)
      case (Html tables page_text)
      show ?thesis
      proof (cases tables)
        case Nil
        with Pair Inr Html show ?thesis by (simp add: url_preview_def after_state)
      next
        case (Cons t0 rest)
        with Pair Inr Html show ?thesis
          using store_frame_state[of "ascii ''Greens''" 10 "pd_DataFrame_records L (tb_data t0)" s]
          by (auto simp: url_preview_def after_state split: prod.splits sum.splits)
      qed
    next
      case (Pdf t)
      with Pair Inr show ?thesis
        using store_text_state[of lbl_content "if t \<noteq> [] then Inr t else Inl key_error_content" s]
        by (auto simp: url_preview_def after_state)
    next
      case (Unknown c)
      with Pair Inr show ?thesis
        using store_text_state[of lbl_content "Inr c" s]
        by (auto simp: url_preview_def after_state)
    next
      case (Failure m)
      with Pair Inr show ?thesis by (simp add: url_preview_def after_state)
    qed
  qed
qed

lemma data_preview_state:
  "snd (data_preview L w s) = s \<or>
   (\<exists>t. snd (data_preview L w s) = s\<lparr>text_content := Some t\<rparr>) \<or>
   (\<exists>f. snd (data_preview L w s) = s\<lparr>df := Some f\<rparr>)"
  using upload_preview_state[of L "w_file_type w" "w_sheet w" _ s] url_preview_state[of L _ s]
  by (auto simp: data_preview_def split: input_method.splits option.splits)

lemma rerun_state:
  "snd (rerun L w s) =
     snd (data_preview L w
       (case w_input_method w of
          Upload_file \<Rightarrow> s\<lparr>uploaded_file := w_uploaded w\<rparr>
        | Input_url \<Rightarrow> s\<lparr>input_url := Some (w_url w)\<rparr>))"
  by (auto simp: rerun_def Let_def split: prod.splits sum.splits
      dest: analyze_button_state_eq)

text \<open>
  C7, as the code has it. One run of the script assigns at most one of the two content
  slots and leaves the other as it was, and it never clears a slot: a frame or a text
  once stored stays stored until it is replaced by another of its kind.
\<close>

theorem ingestion_keeps_other_slot:
  "(df (snd (rerun L w s)) = df s \<or> text_content (snd (rerun L w s)) = text_content s) \<and>
   (df s \<noteq> None \<longrightarrow> df (snd (rerun L w s)) \<noteq> None) \<and>
   (text_content s \<noteq> None \<longrightarrow> text_content (snd (rerun L w s)) \<noteq> None)"
proof -
  let ?s1 = "case w_input_method w of
          Upload_file \<Rightarrow> s\<lparr>uploaded_file := w_uploaded w\<rparr>
        | Input_url \<Rightarrow> s\<lparr>input_url := Some (w_url w)\<rparr>"
  have 1: "df ?s1 = df s" "text_content ?s1 = text_content s"
    by (simp_all split: input_method.splits)
  from data_preview_state[of L w ?s1] 1 show ?thesis
    by (auto simp: rerun_state)
qed

lemma rerun_upload_csv: "snd (rerun example_libs upload_csv initial_session) = after_csv"
  by (simp add: rerun_def data_preview_def upload_preview_def store_frame_def after_def
      upload_csv_def initial_session_def after_csv_def example_libs_def)

lemma rerun_upload_word:
  "snd (rerun example_libs upload_word after_csv) =
     after_csv\<lparr>text_content := Some (ascii ''notes''), uploaded_file := Some ''notes''\<rparr>"
  by (simp add: rerun_def data_preview_def upload_preview_def store_text_def after_def
      process_word_file_def upload_word_def upload_csv_def after_csv_def example_libs_def)

theorem ingestion_keeps_other_slot_witness:
  "df after_csv \<noteq> None \<and>
   df (snd (rerun example_libs upload_word after_csv)) = df after_csv \<and>
   df (snd (rerun example_libs upload_word after_csv)) \<noteq> None"
  using ingestion_keeps_other_slot[of example_libs upload_word after_csv]
  by (simp add: rerun_upload_word) (simp add: after_csv_def)

theorem frame_and_text_together_counterexample:
  "reachable example_libs (snd (rerun example_libs upload_word after_csv)) \<and>
   df (snd (rerun example_libs upload_word after_csv))
     = Some \<lparr>fcols = [ascii ''n,1,2''], frows = []\<rparr> \<and>
   text_content (snd (rerun example_libs upload_word after_csv)) = Some (ascii ''notes'')"
proof -
  have "reachable example_libs (snd (rerun example_libs upload_csv initial_session))"
    by (rule reachable.interaction[OF reachable.fresh])
  then have "reachable example_libs after_csv"
    by (simp only: rerun_upload_csv)
  then have "reachable example_libs (snd (rerun example_libs upload_word after_csv))"
    by (rule reachable.interaction)
  then show ?thesis
    by (simp add: rerun_upload_word) (simp add: after_csv_def)
qed

end
